theory Spec2Isabelle
  imports Main "HOL-Library.AList"
begin

section \<open>renovatebot.ts: the Renovatebot component\<close>

text \<open>
  \<^verbatim>\<open>RenovatebotOptions\<close>: every field of the interface is optional; an omitted field
  is \<open>None\<close>.
\<close>

record RenovatebotOptions =
  opt_scheduleInterval :: "string list option"
  opt_ignore :: "string list option"
  opt_ignoreProjen :: "bool option"
  opt_labels :: "string list option"

text \<open>The default argument \<^verbatim>\<open>options: RenovatebotOptions = {}\<close>.\<close>

definition no_RenovatebotOptions :: RenovatebotOptions where
  "no_RenovatebotOptions =
     \<lparr>opt_scheduleInterval = None, opt_ignore = None, opt_ignoreProjen = None, opt_labels = None\<rparr>"

text \<open>The member \<^verbatim>\<open>RenovatebotScheduleInterval.ANY_TIME\<close> of the enum of schedule strings.\<close>

definition ANY_TIME :: string where
  "ANY_TIME = ''at any time''"

text \<open>The private fields of the class \<^verbatim>\<open>Renovatebot\<close>.\<close>

record Renovatebot =
  explicitIgnores :: "string list"
  scheduleInterval :: "string list"
  labels :: "string list option"

text \<open>
  The constructor. \<^verbatim>\<open>a ?? b\<close> is \<open>b\<close> exactly when \<open>a\<close> is undefined, and
  \<^verbatim>\<open>(options.ignoreProjen ?? true) && this.explicitIgnores.push("projen")\<close> appends
  \<open>projen\<close> unless the option is the boolean false. The push also extends the array
  the caller passed as \<^verbatim>\<open>ignore\<close>, which the component shares; the model keeps the
  list as the component sees it.
\<close>

definition Renovatebot_new :: "RenovatebotOptions option \<Rightarrow> Renovatebot" where
  "Renovatebot_new arg =
     (let options = (case arg of None \<Rightarrow> no_RenovatebotOptions | Some opts \<Rightarrow> opts);
          ignores = (case opt_ignore options of None \<Rightarrow> [] | Some xs \<Rightarrow> xs);
          interval = (case opt_scheduleInterval options of None \<Rightarrow> [ANY_TIME] | Some xs \<Rightarrow> xs);
          ignoreProjen = (case opt_ignoreProjen options of None \<Rightarrow> True | Some b \<Rightarrow> b)
      in \<lparr>explicitIgnores = (if ignoreProjen then ignores @ [''projen''] else ignores),
          scheduleInterval = interval,
          labels = opt_labels options\<rparr>)"

text \<open>
  An entry of \<^verbatim>\<open>project.deps.all\<close>. The class \<^verbatim>\<open>Dependencies\<close> is imported from another
  module; the configuration reads the two fields \<^verbatim>\<open>name\<close> and \<^verbatim>\<open>version\<close> of each
  entry, the second of which is optional.
\<close>

record Dependency =
  dep_name :: string
  dep_version :: "string option"

text \<open>
  \<^verbatim>\<open>.filter((dep) => dep.version)\<close> keeps the entries whose version is truthy: defined
  and not the empty string.
\<close>

definition truthy :: "string option \<Rightarrow> bool" where
  "truthy v = (case v of None \<Rightarrow> False | Some s \<Rightarrow> s \<noteq> [])"

text \<open>
  A JavaScript \<^verbatim>\<open>Set\<close> of strings, as the list of its elements in insertion order.
  \<^verbatim>\<open>new Set(xs)\<close> adds the elements of \<open>xs\<close> from left to right, adding an element
  that is already there changes nothing, and \<^verbatim>\<open>[...set]\<close> lists the elements in
  insertion order.
\<close>

definition Set_add :: "'a list \<Rightarrow> 'a \<Rightarrow> 'a list" where
  "Set_add s x = (if x \<in> set s then s else s @ [x])"

definition new_Set :: "'a list \<Rightarrow> 'a list" where
  "new_Set xs = foldl Set_add [] xs"

record PackageRule =
  matchDepTypes :: "string list"
  matchUpdateTypes :: "string list"
  groupName :: string

text \<open>The object \<^verbatim>\<open>config\<close> written to \<^verbatim>\<open>renovate.json5\<close>.\<close>

record RenovateConfig =
  cfg_labels :: "string list option"
  schedule :: "string list"
  extends :: "string list"
  packageRules :: "PackageRule list"
  ignoreDeps :: "string list"

definition renovateIgnore :: "Dependency list \<Rightarrow> Renovatebot \<Rightarrow> string list" where
  "renovateIgnore deps_all this =
     new_Set (map dep_name (filter (\<lambda>dep. truthy (dep_version dep)) deps_all) @ explicitIgnores this)"

definition createRenovateConfiguration :: "Dependency list \<Rightarrow> Renovatebot \<Rightarrow> RenovateConfig" where
  "createRenovateConfiguration deps_all this =
     \<lparr>cfg_labels = labels this,
      schedule = scheduleInterval this,
      extends = ['':preserveSemverRanges'', ''config:base'', ''group:allNonMajor'',
                 ''group:recommended'', ''group:monorepos''],
      packageRules = [\<lparr>matchDepTypes = [''devDependencies''],
                       matchUpdateTypes = [''patch'', ''minor''],
                       groupName = ''devDependencies (non-major)''\<rparr>],
      ignoreDeps = renovateIgnore deps_all this\<rparr>"

section \<open>Task and Tasks: the task registry\<close>

text \<open>
  The classes \<^verbatim>\<open>Task\<close> and \<^verbatim>\<open>Tasks\<close> are imported by the project from the modules
  \<^verbatim>\<open>./task\<close> and \<^verbatim>\<open>./tasks\<close>; the project file holds only the calls to them. Their
  model follows the specification of the repository.

  A \<^verbatim>\<open>Task\<close> is an object: the project keeps references to it in its fields, the
  registry keeps it under its name, and \<^verbatim>\<open>spawn\<close> compares references with
  \<^verbatim>\<open>===\<close>. A reference is the position of the object in the store of the Task objects,
  and an object is allocated at the end of the store.
\<close>

datatype error = DuplicateTaskError | SelfSpawnError

type_synonym ref = nat

record TaskOptions =
  opt_description :: "string option"
  opt_env :: "(string \<times> string) list option"

definition no_TaskOptions :: TaskOptions where
  "no_TaskOptions = \<lparr>opt_description = None, opt_env = None\<rparr>"

record Task =
  name :: string
  description :: "string option"
  environment :: "(string \<times> string) list"
  spawns :: "ref list"

text \<open>
  The registry: the mapping from names to Task references in insertion order, with the
  store of the Task objects it has constructed.
\<close>

record Tasks =
  entries :: "(string \<times> ref) list"
  heap :: "Task list"

text \<open>Modelled from the spec: the constructor of \<^verbatim>\<open>Tasks\<close>, a registry that owns no task yet.\<close>

definition Tasks_new :: Tasks where
  "Tasks_new = \<lparr>entries = [], heap = []\<rparr>"

text \<open>
  Modelled from the spec: the constructor of \<^verbatim>\<open>Task\<close>, "a Task with the given
  description/environment" and nothing to spawn yet.
\<close>

definition Task_new :: "string \<Rightarrow> TaskOptions \<Rightarrow> Task" where
  "Task_new n opts =
     \<lparr>name = n,
      description = opt_description opts,
      environment = (case opt_env opts of None \<Rightarrow> [] | Some e \<Rightarrow> e),
      spawns = []\<rparr>"

text \<open>Modelled from the spec: \<^verbatim>\<open>get(name) -> Task | undefined\<close>, "lookup, no side effects".\<close>

definition Tasks_get :: "Tasks \<Rightarrow> string \<Rightarrow> ref option" where
  "Tasks_get ts n = map_of (entries ts) n"

text \<open>
  Modelled from the spec: \<^verbatim>\<open>Tasks.addTask(name, options) -> Task\<close>, which "fails with
  DuplicateTaskError if name already exists. Otherwise constructs a Task with the given
  description/environment, stores it, returns it." The result is the error or the
  reference to the new Task, with the registry after the call.
\<close>

definition Tasks_addTask :: "Tasks \<Rightarrow> string \<Rightarrow> TaskOptions \<Rightarrow> (error + ref) \<times> Tasks" where
  "Tasks_addTask ts n opts =
     (if Tasks_get ts n \<noteq> None then (Inl DuplicateTaskError, ts)
      else (Inr (length (heap ts)),
            ts\<lparr>entries := entries ts @ [(n, length (heap ts))],
               heap := heap ts @ [Task_new n opts]\<rparr>))"

text \<open>
  Modelled from the spec: \<^verbatim>\<open>Tasks.removeTask(name) -> Task | undefined\<close>, which "removes
  and returns the task if present, else returns an absent-value marker (not an error)";
  "any other task's spawn list containing the removed task must have that reference
  pruned" (the policy the specification recommends).
\<close>

definition prune :: "ref \<Rightarrow> Task \<Rightarrow> Task" where
  "prune r t = t\<lparr>spawns := filter (\<lambda>c. c \<noteq> r) (spawns t)\<rparr>"

definition prune_others :: "ref \<Rightarrow> Task list \<Rightarrow> Task list" where
  "prune_others r h = map (\<lambda>(i, t). if i = r then t else prune r t) (enumerate 0 h)"

definition Tasks_removeTask :: "Tasks \<Rightarrow> string \<Rightarrow> ref option \<times> Tasks" where
  "Tasks_removeTask ts n =
     (case Tasks_get ts n of
        None \<Rightarrow> (None, ts)
      | Some r \<Rightarrow> (Some r, ts\<lparr>entries := filter (\<lambda>e. fst e \<noteq> n) (entries ts),
                              heap := prune_others r (heap ts)\<rparr>))"

text \<open>
  Modelled from the spec: \<^verbatim>\<open>Task.spawn(childTask)\<close>, which "appends childTask to spawns.
  Fails with SelfSpawnError if childTask === this." The receiver and the child are
  references into the store; the update of a list at a position outside it changes
  nothing (a reference always comes from \<open>Tasks_addTask\<close>, so the program has none).
\<close>

definition spawn :: "Tasks \<Rightarrow> ref \<Rightarrow> ref \<Rightarrow> (error + unit) \<times> Tasks" where
  "spawn ts this childTask =
     (if childTask = this then (Inl SelfSpawnError, ts)
      else (Inr (),
            ts\<lparr>heap := (heap ts)[this := (heap ts ! this)\<lparr>spawns := spawns (heap ts ! this) @ [childTask]\<rparr>]\<rparr>))"

text \<open>
  Modelled from the spec: \<^verbatim>\<open>Task.env(key, value)\<close>, which "sets/overwrites an environment
  entry", the last write winning.
\<close>

definition env :: "Tasks \<Rightarrow> ref \<Rightarrow> string \<Rightarrow> string \<Rightarrow> Tasks" where
  "env ts this k v =
     ts\<lparr>heap := (heap ts)[this := (heap ts ! this)\<lparr>environment := AList.update k v (environment (heap ts ! this))\<rparr>]\<rparr>"

section \<open>standard-project.ts: the class StandardProject\<close>

text \<open>
  The options the constructor reads. The options of \<^verbatim>\<open>.projenrc.json\<close> only reach the
  component \<^verbatim>\<open>Projenrc\<close> of another module and are left out.
\<close>

record StandardProjectOptions =
  opt_projenCommand :: "string option"
  opt_renovatebot :: "bool option"
  opt_renovatebotOptions :: "RenovatebotOptions option"

definition no_StandardProjectOptions :: StandardProjectOptions where
  "no_StandardProjectOptions =
     \<lparr>opt_projenCommand = None, opt_renovatebot = None, opt_renovatebotOptions = None\<rparr>"

text \<open>
  The files \<^verbatim>\<open>.gitignore\<close> and \<^verbatim>\<open>.gitattributes\<close> are objects of classes of other
  modules. Each is kept as the sequence of the calls the project has made on it.
\<close>

datatype IgnoreCall = Exclude string | Include string | AddPatterns string

text \<open>
  The fields of the project. \<open>ejected\<close> is inherited from the base class \<^verbatim>\<open>Project\<close>;
  \<open>components\<close> holds the Renovatebot the constructor creates (a component registers
  itself with its project). The components \<^verbatim>\<open>ProjectBuild\<close>, \<^verbatim>\<open>Dependencies\<close>,
  \<^verbatim>\<open>Projenrc\<close> and the manifest \<^verbatim>\<open>JsonFile\<close> belong to other modules, and what their
  constructors do with the project is not part of the model.
\<close>

record StandardProject =
  ejected :: bool
  gitignore :: "IgnoreCall list"
  gitattributes :: "(string \<times> string) list"
  tasks :: Tasks
  projenCommand :: string
  defaultTask :: "ref option"
  ejectTask :: "ref option"
  components :: "Renovatebot list"

definition DEFAULT_TASK :: string where
  "DEFAULT_TASK = ''default''"

definition annotateGenerated :: "StandardProject \<Rightarrow> string \<Rightarrow> StandardProject" where
  "annotateGenerated this glob =
     this\<lparr>gitattributes := gitattributes this @ [(glob, ''linguist-generated'')]\<rparr>"

definition addGitIgnore :: "StandardProject \<Rightarrow> string \<Rightarrow> StandardProject" where
  "addGitIgnore this pattern = this\<lparr>gitignore := gitignore this @ [AddPatterns pattern]\<rparr>"

text \<open>\<^verbatim>\<open>addPackageIgnore(_pattern)\<close> has an empty body.\<close>

definition addPackageIgnore :: "StandardProject \<Rightarrow> string \<Rightarrow> StandardProject" where
  "addPackageIgnore this pattern = this"

text \<open>
  \<^verbatim>\<open>addTask(name, props = {})\<close> and \<^verbatim>\<open>removeTask(name)\<close> hand the call to the registry;
  an exception of the registry is the exception of the call.
\<close>

definition addTask :: "StandardProject \<Rightarrow> string \<Rightarrow> TaskOptions option \<Rightarrow> (error + ref) \<times> StandardProject" where
  "addTask this n props =
     (case Tasks_addTask (tasks this) n (case props of None \<Rightarrow> no_TaskOptions | Some p \<Rightarrow> p) of
        (res, ts) \<Rightarrow> (res, this\<lparr>tasks := ts\<rparr>))"

definition removeTask :: "StandardProject \<Rightarrow> string \<Rightarrow> ref option \<times> StandardProject" where
  "removeTask this n =
     (case Tasks_removeTask (tasks this) n of (res, ts) \<Rightarrow> (res, this\<lparr>tasks := ts\<rparr>))"

text \<open>
  \<^verbatim>\<open>runTaskCommand(task)\<close> is the template \<^verbatim>\<open>`npx projen@${PROJEN_VERSION} ${task.name}`\<close>.
  The constant \<^verbatim>\<open>PROJEN_VERSION\<close> is imported from the module \<^verbatim>\<open>./common\<close> and is
  a parameter here; the task is the object the reference of the caller points to.
\<close>

definition runTaskCommand :: "string \<Rightarrow> StandardProject \<Rightarrow> Task \<Rightarrow> string" where
  "runTaskCommand PROJEN_VERSION this task = ''npx projen@'' @ PROJEN_VERSION @ '' '' @ name task"

text \<open>
  The constructor. Its parameters besides the options are the value of \<^verbatim>\<open>this.ejected\<close>,
  which the base class sets, and \<^verbatim>\<open>this.gitattributes.path\<close>. It returns the project,
  or the exception that a call to the registry raised.

  The definition holds the statements of the constructor on the fields above. Four
  statements construct objects of other modules and are left out: the manifest
  \<^verbatim>\<open>JsonFile\<close> of the normal branch, and in both modes \<^verbatim>\<open>new ProjectBuild(this)\<close>,
  \<^verbatim>\<open>new Dependencies(this)\<close> and \<^verbatim>\<open>new Projenrc(...)\<close>. The project of the program
  has in its registry, besides the tasks registered here, the tasks those components
  register (the getters \<^verbatim>\<open>buildTask\<close>, \<^verbatim>\<open>compileTask\<close>, \<^verbatim>\<open>testTask\<close> and the others
  read them from the ProjectBuild), so the registry of the result is what the
  constructor itself has registered, and not all that the registry of the program holds.
\<close>

definition StandardProject_new :: "bool \<Rightarrow> string \<Rightarrow> StandardProjectOptions \<Rightarrow> error + StandardProject" where
  "StandardProject_new is_ejected gitattributes_path options =
     (let this0 = \<lparr>ejected = is_ejected, gitignore = [], gitattributes = [], tasks = Tasks_new,
                   projenCommand = [], defaultTask = None, ejectTask = None, components = []\<rparr>;
          this1 = annotateGenerated this0 ''/.projen/**'';
          this2 = annotateGenerated this1 (''/'' @ gitattributes_path);
          this3 = this2\<lparr>gitignore := gitignore this2 @ [Exclude ''node_modules/'']\<rparr>;
          this4 = this3\<lparr>gitignore := gitignore this3 @ [Include (''/'' @ gitattributes_path)]\<rparr>;
          finish = (\<lambda>this. if opt_renovatebot options = Some True
                      then this\<lparr>components := components this @ [Renovatebot_new (opt_renovatebotOptions options)]\<rparr>
                      else this)
      in if ejected this4 then Inr (finish (this4\<lparr>projenCommand := ''scripts/run-task''\<rparr>))
         else
           (let this5 = this4\<lparr>projenCommand :=
                          (case opt_projenCommand options of None \<Rightarrow> ''npx projen'' | Some c \<Rightarrow> c)\<rparr>
            in case Tasks_addTask (tasks this5) DEFAULT_TASK
                      \<lparr>opt_description = Some ''Synthesize project files'', opt_env = None\<rparr> of
                 (Inl e, ts) \<Rightarrow> Inl e
               | (Inr d, ts) \<Rightarrow>
                  (case Tasks_addTask ts ''eject''
                          \<lparr>opt_description = Some ''Remove projen from the project'',
                           opt_env = Some [(''PROJEN_EJECTING'', ''true'')]\<rparr> of
                     (Inl e, ts') \<Rightarrow> Inl e
                   | (Inr j, ts') \<Rightarrow>
                      (case spawn ts' j d of
                         (Inl e, ts'') \<Rightarrow> Inl e
                       | (Inr u, ts'') \<Rightarrow>
                           Inr (finish (this5\<lparr>tasks := ts'', defaultTask := Some d, ejectTask := Some j\<rparr>))))))"

text \<open>
  A call on a constructed project or on one of its tasks, and the state it leaves behind
  (also when it raises). A run is a sequence of calls.
\<close>

datatype call =
    AddTask string "TaskOptions option"
  | RemoveTask string
  | RunTaskCommand string Task
  | AddPackageIgnore string
  | AddGitIgnore string
  | AnnotateGenerated string
  | Spawn ref ref
  | Env ref string string

fun exec :: "StandardProject \<Rightarrow> call \<Rightarrow> StandardProject" where
  "exec this (AddTask n props) = snd (addTask this n props)"
| "exec this (RemoveTask n) = snd (removeTask this n)"
| "exec this (RunTaskCommand v task) = this"
| "exec this (AddPackageIgnore pattern) = addPackageIgnore this pattern"
| "exec this (AddGitIgnore pattern) = addGitIgnore this pattern"
| "exec this (AnnotateGenerated glob) = annotateGenerated this glob"
| "exec this (Spawn t c) = this\<lparr>tasks := snd (spawn (tasks this) t c)\<rparr>"
| "exec this (Env t k v) = this\<lparr>tasks := env (tasks this) t k v\<rparr>"

definition run :: "StandardProject \<Rightarrow> call list \<Rightarrow> StandardProject" where
  "run this calls = foldl exec this calls"

text \<open>
  The components the constructor has created when it returns: the Renovatebot, when the
  option \<^verbatim>\<open>renovatebot\<close> is truthy.
\<close>

definition built_components :: "StandardProjectOptions \<Rightarrow> Renovatebot list" where
  "built_components options =
     (if opt_renovatebot options = Some True
      then [Renovatebot_new (opt_renovatebotOptions options)] else [])"

section \<open>Concrete projects\<close>

text \<open>
  The project \<^verbatim>\<open>new StandardProject({})\<close> in normal mode and in ejected mode, with
  \<^verbatim>\<open>.gitattributes\<close> as the path of the attributes file, as the statements of the
  constructor leave it, and an ejected project whose registry has the two tasks
  \<open>build\<close> and \<open>test\<close>.
\<close>

definition example_normal :: StandardProject where
  "example_normal =
     \<lparr>ejected = False,
      gitignore = [Exclude ''node_modules/'', Include ''/.gitattributes''],
      gitattributes = [(''/.projen/**'', ''linguist-generated''),
                       (''/.gitattributes'', ''linguist-generated'')],
      tasks = \<lparr>entries = [(''default'', 0), (''eject'', 1)],
               heap = [\<lparr>name = ''default'', description = Some ''Synthesize project files'',
                        environment = [], spawns = []\<rparr>,
                       \<lparr>name = ''eject'', description = Some ''Remove projen from the project'',
                        environment = [(''PROJEN_EJECTING'', ''true'')], spawns = [0]\<rparr>]\<rparr>,
      projenCommand = ''npx projen'',
      defaultTask = Some 0, ejectTask = Some 1,
      components = []\<rparr>"

definition example_ejected :: StandardProject where
  "example_ejected =
     \<lparr>ejected = True,
      gitignore = [Exclude ''node_modules/'', Include ''/.gitattributes''],
      gitattributes = [(''/.projen/**'', ''linguist-generated''),
                       (''/.gitattributes'', ''linguist-generated'')],
      tasks = \<lparr>entries = [], heap = []\<rparr>,
      projenCommand = ''scripts/run-task'',
      defaultTask = None, ejectTask = None,
      components = []\<rparr>"

definition example_ejected_tasks :: StandardProject where
  "example_ejected_tasks =
     \<lparr>ejected = True,
      gitignore = [Exclude ''node_modules/'', Include ''/.gitattributes''],
      gitattributes = [(''/.projen/**'', ''linguist-generated''),
                       (''/.gitattributes'', ''linguist-generated'')],
      tasks = \<lparr>entries = [(''build'', 0), (''test'', 1)],
               heap = [\<lparr>name = ''build'', description = Some ''Full release build'',
                        environment = [], spawns = []\<rparr>,
                       \<lparr>name = ''test'', description = Some ''Run tests'',
                        environment = [], spawns = []\<rparr>]\<rparr>,
      projenCommand = ''scripts/run-task'',
      defaultTask = None, ejectTask = None,
      components = []\<rparr>"

definition example_deps :: "Dependency list" where
  "example_deps =
     [\<lparr>dep_name = ''jest'', dep_version = Some ''^29''\<rparr>,
      \<lparr>dep_name = ''typescript'', dep_version = None\<rparr>,
      \<lparr>dep_name = ''jest'', dep_version = Some ''^28''\<rparr>,
      \<lparr>dep_name = ''eslint'', dep_version = Some []\<rparr>]"

section \<open>Properties of the renovate configuration\<close>

lemma Set_add_distinct: "distinct s \<Longrightarrow> distinct (Set_add s x)"
  by (simp add: Set_add_def)

lemma set_Set_add: "set (Set_add s x) = insert x (set s)"
  by (auto simp: Set_add_def)

lemma foldl_Set_add_distinct: "distinct s \<Longrightarrow> distinct (foldl Set_add s xs)"
  by (induction xs arbitrary: s) (simp_all add: Set_add_distinct)

lemma set_foldl_Set_add: "set (foldl Set_add s xs) = set s \<union> set xs"
  by (induction xs arbitrary: s) (simp_all add: set_Set_add)

lemma distinct_new_Set: "distinct (new_Set xs)"
  by (simp add: new_Set_def foldl_Set_add_distinct)

lemma set_new_Set: "set (new_Set xs) = set xs"
  by (simp add: new_Set_def set_foldl_Set_add)

lemma count_list_distinct: "distinct xs \<Longrightarrow> x \<in> set xs \<Longrightarrow> count_list xs x = 1"
  by (induction xs) (auto simp: count_list_0_iff)

lemma set_renovateIgnore:
  "set (renovateIgnore deps_all this)
     = dep_name ` {dep \<in> set deps_all. truthy (dep_version dep)} \<union> set (explicitIgnores this)"
  by (simp add: renovateIgnore_def set_new_Set)

lemma explicitIgnores_projen:
  "opt_ignoreProjen opts \<noteq> Some False \<Longrightarrow> ''projen'' \<in> set (explicitIgnores (Renovatebot_new (Some opts)))"
  by (cases "opt_ignoreProjen opts") (simp_all add: Renovatebot_new_def Let_def)

lemma scheduleInterval_default:
  "opt_scheduleInterval opts = None \<Longrightarrow> scheduleInterval (Renovatebot_new (Some opts)) = [''at any time'']"
  by (simp add: Renovatebot_new_def Let_def ANY_TIME_def)

lemma Renovatebot_new_None:
  "Renovatebot_new None =
     \<lparr>explicitIgnores = [''projen''], scheduleInterval = [''at any time''], labels = None\<rparr>"
  by (simp add: Renovatebot_new_def Let_def ANY_TIME_def no_RenovatebotOptions_def)

text \<open>
  C8. The list \<open>ignoreDeps\<close> of the emitted configuration has no duplicates, whatever the
  dependencies of the project and the explicit ignores are: it is distinct, its elements
  are the names of the dependencies with a truthy version together with the explicit
  ignores, and each of them occurs in it exactly once.
\<close>

theorem ignoreDeps_set_semantics:
  "distinct (ignoreDeps (createRenovateConfiguration deps_all this))
   \<and> set (ignoreDeps (createRenovateConfiguration deps_all this))
       = dep_name ` {dep \<in> set deps_all. truthy (dep_version dep)} \<union> set (explicitIgnores this)
   \<and> (\<forall>n. count_list (ignoreDeps (createRenovateConfiguration deps_all this)) n
          = (if n \<in> dep_name ` {dep \<in> set deps_all. truthy (dep_version dep)}
                    \<union> set (explicitIgnores this) then 1 else 0))"
proof -
  let ?out = "ignoreDeps (createRenovateConfiguration deps_all this)"
  let ?names = "dep_name ` {dep \<in> set deps_all. truthy (dep_version dep)} \<union> set (explicitIgnores this)"
  have d: "distinct ?out"
    by (simp add: createRenovateConfiguration_def renovateIgnore_def distinct_new_Set)
  have s: "set ?out = ?names"
    by (simp add: createRenovateConfiguration_def set_renovateIgnore)
  have c: "count_list ?out n = (if n \<in> ?names then 1 else 0)" for n
  proof (cases "n \<in> set ?out")
    case True
    with d s show ?thesis by (simp add: count_list_distinct)
  next
    case False
    with s show ?thesis by (simp add: count_list_0_iff)
  qed
  from d s c show ?thesis by blast
qed

text \<open>
  C9. Unless the option \<open>ignoreProjen\<close> is the boolean false, \<open>projen\<close> is in the list
  \<open>ignoreDeps\<close> of the emitted configuration; when \<open>scheduleInterval\<close> is omitted, the
  emitted schedule is the one-element list \<open>at any time\<close>. Both hold as well when the
  options object is omitted altogether.
\<close>

theorem renovate_defaults:
  "(opt_ignoreProjen opts \<noteq> Some False \<longrightarrow>
      ''projen'' \<in> set (ignoreDeps (createRenovateConfiguration deps_all (Renovatebot_new (Some opts)))))
   \<and> (opt_scheduleInterval opts = None \<longrightarrow>
      schedule (createRenovateConfiguration deps_all (Renovatebot_new (Some opts))) = [''at any time''])
   \<and> ''projen'' \<in> set (ignoreDeps (createRenovateConfiguration deps_all (Renovatebot_new None)))
   \<and> schedule (createRenovateConfiguration deps_all (Renovatebot_new None)) = [''at any time'']"
proof -
  have a: "''projen'' \<in> set (ignoreDeps (createRenovateConfiguration deps_all (Renovatebot_new (Some opts))))"
    if "opt_ignoreProjen opts \<noteq> Some False"
    using explicitIgnores_projen [OF that]
    by (simp add: createRenovateConfiguration_def set_renovateIgnore)
  have b: "schedule (createRenovateConfiguration deps_all (Renovatebot_new (Some opts))) = [''at any time'']"
    if "opt_scheduleInterval opts = None"
    using scheduleInterval_default [OF that] by (simp add: createRenovateConfiguration_def)
  have c: "''projen'' \<in> set (ignoreDeps (createRenovateConfiguration deps_all (Renovatebot_new None)))"
    by (simp add: createRenovateConfiguration_def set_renovateIgnore Renovatebot_new_None)
  have d: "schedule (createRenovateConfiguration deps_all (Renovatebot_new None)) = [''at any time'']"
    by (simp add: createRenovateConfiguration_def Renovatebot_new_None)
  from a b c d show ?thesis by blast
qed

theorem renovate_defaults_witness:
  "opt_ignoreProjen (no_RenovatebotOptions\<lparr>opt_ignore := Some [''jest'']\<rparr>) \<noteq> Some False
   \<and> opt_scheduleInterval (no_RenovatebotOptions\<lparr>opt_ignore := Some [''jest'']\<rparr>) = None
   \<and> ''projen'' \<in> set (ignoreDeps (createRenovateConfiguration example_deps
         (Renovatebot_new (Some (no_RenovatebotOptions\<lparr>opt_ignore := Some [''jest'']\<rparr>)))))
   \<and> schedule (createRenovateConfiguration example_deps
         (Renovatebot_new (Some (no_RenovatebotOptions\<lparr>opt_ignore := Some [''jest'']\<rparr>)))) = [''at any time'']"
  using renovate_defaults [of "no_RenovatebotOptions\<lparr>opt_ignore := Some [''jest'']\<rparr>" example_deps]
  by (simp add: no_RenovatebotOptions_def)

section \<open>Properties of the registry and of the tasks\<close>

lemma map_of_filter_key: "map_of (filter (\<lambda>e. fst e \<noteq> n) xs) n = None"
  by (induction xs) auto

lemma map_of_filter_other: "m \<noteq> n \<Longrightarrow> map_of (filter (\<lambda>e. fst e \<noteq> n) xs) m = map_of xs m"
  by (induction xs) auto

lemma prune_others_self: "r < length h \<Longrightarrow> prune_others r h ! r = h ! r"
  by (simp add: prune_others_def nth_enumerate_eq)

lemma Tasks_addTask_duplicate:
  "Tasks_get ts n \<noteq> None \<Longrightarrow> Tasks_addTask ts n opts = (Inl DuplicateTaskError, ts)"
  by (simp add: Tasks_addTask_def)

lemma Tasks_removeTask_absent: "Tasks_get ts n = None \<Longrightarrow> Tasks_removeTask ts n = (None, ts)"
  by (simp add: Tasks_removeTask_def)

lemma Tasks_removeTask_present:
  "Tasks_get ts n = Some r \<Longrightarrow>
     Tasks_removeTask ts n =
       (Some r, ts\<lparr>entries := filter (\<lambda>e. fst e \<noteq> n) (entries ts), heap := prune_others r (heap ts)\<rparr>)"
  by (simp add: Tasks_removeTask_def)

text \<open>
  C2. When the registry of a project already has a task under the name, \<open>addTask\<close> fails
  with \<open>DuplicateTaskError\<close> and the state after the call is the state before it: the
  entries of the registry, their order and the Task objects are the same (and so is
  every other field of the project).
\<close>

theorem addTask_duplicate_unchanged:
  "Tasks_get (tasks this) n \<noteq> None \<Longrightarrow>
     addTask this n props = (Inl DuplicateTaskError, this)
     \<and> entries (tasks (snd (addTask this n props))) = entries (tasks this)
     \<and> heap (tasks (snd (addTask this n props))) = heap (tasks this)"
proof -
  assume present: "Tasks_get (tasks this) n \<noteq> None"
  have "addTask this n props = (Inl DuplicateTaskError, this)"
    by (simp add: addTask_def Tasks_addTask_duplicate [OF present])
  then show ?thesis by simp
qed

theorem addTask_duplicate_unchanged_witness:
  "Tasks_get (tasks example_normal) ''default'' \<noteq> None
   \<and> addTask example_normal ''default'' None = (Inl DuplicateTaskError, example_normal)"
proof -
  have present: "Tasks_get (tasks example_normal) ''default'' \<noteq> None"
    by (simp add: Tasks_get_def example_normal_def)
  from addTask_duplicate_unchanged [OF present, of None] present show ?thesis by simp
qed

text \<open>
  C6. When the registry of a project has no task under the name, \<open>removeTask\<close> returns
  the absent value, raises nothing and leaves the state as it was. When it has the task
  \<open>r\<close> under the name, \<open>removeTask\<close> returns \<open>r\<close>, a lookup of the name afterwards
  returns the absent value, the lookups of the other names are as before, and the
  object returned is the one that was stored.
\<close>

theorem removeTask_absent_present:
  "(Tasks_get (tasks this) n = None \<longrightarrow> removeTask this n = (None, this))
   \<and> (\<forall>r. Tasks_get (tasks this) n = Some r \<longrightarrow>
         fst (removeTask this n) = Some r
       \<and> Tasks_get (tasks (snd (removeTask this n))) n = None
       \<and> n \<notin> fst ` set (entries (tasks (snd (removeTask this n))))
       \<and> (\<forall>m. m \<noteq> n \<longrightarrow> Tasks_get (tasks (snd (removeTask this n))) m = Tasks_get (tasks this) m)
       \<and> (r < length (heap (tasks this)) \<longrightarrow>
            heap (tasks (snd (removeTask this n))) ! r = heap (tasks this) ! r))"
proof (intro conjI impI allI)
  assume "Tasks_get (tasks this) n = None"
  then show "removeTask this n = (None, this)"
    by (simp add: removeTask_def Tasks_removeTask_absent)
next
  fix r
  assume "Tasks_get (tasks this) n = Some r"
  then have rm: "removeTask this n =
      (Some r, this\<lparr>tasks := (tasks this)\<lparr>entries := filter (\<lambda>e. fst e \<noteq> n) (entries (tasks this)),
                                           heap := prune_others r (heap (tasks this))\<rparr>\<rparr>)"
    by (simp add: removeTask_def Tasks_removeTask_present)
  show "fst (removeTask this n) = Some r"
    by (simp add: rm)
  show "Tasks_get (tasks (snd (removeTask this n))) n = None"
    by (simp add: rm Tasks_get_def map_of_filter_key)
  show "n \<notin> fst ` set (entries (tasks (snd (removeTask this n))))"
    by (auto simp: rm)
  show "Tasks_get (tasks (snd (removeTask this n))) m = Tasks_get (tasks this) m" if "m \<noteq> n" for m
    using that by (simp add: rm Tasks_get_def map_of_filter_other)
  show "heap (tasks (snd (removeTask this n))) ! r = heap (tasks this) ! r"
    if "r < length (heap (tasks this))"
    using that by (simp add: rm prune_others_self)
qed

theorem removeTask_absent_present_witness:
  "Tasks_get (tasks example_normal) ''build'' = None
   \<and> removeTask example_normal ''build'' = (None, example_normal)
   \<and> Tasks_get (tasks example_normal) ''default'' = Some 0
   \<and> fst (removeTask example_normal ''default'') = Some 0
   \<and> Tasks_get (tasks (snd (removeTask example_normal ''default''))) ''default'' = None
   \<and> Tasks_get (tasks (snd (removeTask example_normal ''default''))) ''eject'' = Some 1
   \<and> name (heap (tasks (snd (removeTask example_normal ''default''))) ! 0) = ''default''"
proof -
  have absent: "Tasks_get (tasks example_normal) ''build'' = None"
    and present: "Tasks_get (tasks example_normal) ''default'' = Some 0"
    and stored: "0 < length (heap (tasks example_normal))"
    and others: "Tasks_get (tasks example_normal) ''eject'' = Some 1"
    and nm: "name (heap (tasks example_normal) ! 0) = ''default''"
    by (simp_all add: Tasks_get_def example_normal_def)
  from removeTask_absent_present [of example_normal "''build''"]
    removeTask_absent_present [of example_normal "''default''"]
    absent present stored others nm
  show ?thesis by simp
qed

text \<open>
  C5. For every task \<open>t\<close>, \<open>t.spawn(t)\<close> fails with \<open>SelfSpawnError\<close> and leaves the
  state, and with it the spawn list of \<open>t\<close>, as it was. For an existing task \<open>t\<close> and
  every other task \<open>c\<close>, \<open>t.spawn(c)\<close> returns and the spawn list of \<open>t\<close> afterwards
  is the one before with \<open>c\<close> appended at its end; the name of \<open>t\<close>, the entries of the
  registry and the other tasks are as before.
\<close>

theorem spawn_self_and_child:
  "spawn ts t t = (Inl SelfSpawnError, ts)
   \<and> (c \<noteq> t \<and> t < length (heap ts) \<longrightarrow>
        fst (spawn ts t c) = Inr ()
      \<and> spawns (heap (snd (spawn ts t c)) ! t) = spawns (heap ts ! t) @ [c]
      \<and> name (heap (snd (spawn ts t c)) ! t) = name (heap ts ! t)
      \<and> entries (snd (spawn ts t c)) = entries ts
      \<and> (\<forall>u. u \<noteq> t \<longrightarrow> heap (snd (spawn ts t c)) ! u = heap ts ! u))"
proof (intro conjI impI)
  show "spawn ts t t = (Inl SelfSpawnError, ts)"
    by (simp add: spawn_def)
next
  assume h: "c \<noteq> t \<and> t < length (heap ts)"
  then have sp: "spawn ts t c =
      (Inr (), ts\<lparr>heap := (heap ts)[t := (heap ts ! t)\<lparr>spawns := spawns (heap ts ! t) @ [c]\<rparr>]\<rparr>)"
    by (simp add: spawn_def)
  show "fst (spawn ts t c) = Inr ()"
    by (simp add: sp)
  show "spawns (heap (snd (spawn ts t c)) ! t) = spawns (heap ts ! t) @ [c]"
    using h by (simp add: sp)
  show "name (heap (snd (spawn ts t c)) ! t) = name (heap ts ! t)"
    using h by (simp add: sp)
  show "entries (snd (spawn ts t c)) = entries ts"
    by (simp add: sp)
  show "\<forall>u. u \<noteq> t \<longrightarrow> heap (snd (spawn ts t c)) ! u = heap ts ! u"
    by (simp add: sp)
qed

theorem spawn_self_and_child_witness:
  "spawn (tasks example_normal) 1 1 = (Inl SelfSpawnError, tasks example_normal)
   \<and> (0::nat) \<noteq> 1 \<and> (1::nat) < length (heap (tasks example_normal))
   \<and> fst (spawn (tasks example_normal) 1 0) = Inr ()
   \<and> spawns (heap (tasks example_normal) ! 1) = [0]
   \<and> spawns (heap (snd (spawn (tasks example_normal) 1 0)) ! 1) = [0, 0]"
proof -
  have h: "(0::nat) \<noteq> 1 \<and> (1::nat) < length (heap (tasks example_normal))"
    and before: "spawns (heap (tasks example_normal) ! 1) = [0]"
    by (simp_all add: example_normal_def)
  from spawn_self_and_child [of "tasks example_normal" 1 0] h before
  show ?thesis by simp
qed

section \<open>Properties of the project\<close>

lemma StandardProject_new_ejected:
  "StandardProject_new True path options =
     Inr \<lparr>ejected = True,
          gitignore = [Exclude ''node_modules/'', Include (''/'' @ path)],
          gitattributes = [(''/.projen/**'', ''linguist-generated''),
                           (''/'' @ path, ''linguist-generated'')],
          tasks = \<lparr>entries = [], heap = []\<rparr>,
          projenCommand = ''scripts/run-task'',
          defaultTask = None, ejectTask = None,
          components = built_components options\<rparr>"
  by (simp add: StandardProject_new_def Let_def annotateGenerated_def Tasks_new_def
      built_components_def)

lemma StandardProject_new_normal:
  "StandardProject_new False path options =
     Inr \<lparr>ejected = False,
          gitignore = [Exclude ''node_modules/'', Include (''/'' @ path)],
          gitattributes = [(''/.projen/**'', ''linguist-generated''),
                           (''/'' @ path, ''linguist-generated'')],
          tasks = \<lparr>entries = [(''default'', 0), (''eject'', 1)],
                   heap = [\<lparr>name = ''default'', description = Some ''Synthesize project files'',
                            environment = [], spawns = []\<rparr>,
                           \<lparr>name = ''eject'', description = Some ''Remove projen from the project'',
                            environment = [(''PROJEN_EJECTING'', ''true'')], spawns = [0]\<rparr>]\<rparr>,
          projenCommand = (case opt_projenCommand options of None \<Rightarrow> ''npx projen'' | Some c \<Rightarrow> c),
          defaultTask = Some 0, ejectTask = Some 1,
          components = built_components options\<rparr>"
  by (simp add: StandardProject_new_def Let_def annotateGenerated_def Tasks_new_def
      built_components_def Tasks_addTask_def Tasks_get_def DEFAULT_TASK_def spawn_def Task_new_def)

lemma example_normal_constructed:
  "StandardProject_new False ''.gitattributes'' no_StandardProjectOptions = Inr example_normal"
  by (simp add: StandardProject_new_normal example_normal_def built_components_def
      no_StandardProjectOptions_def)

lemma example_ejected_constructed:
  "StandardProject_new True ''.gitattributes'' no_StandardProjectOptions = Inr example_ejected"
  by (simp add: StandardProject_new_ejected example_ejected_def built_components_def
      no_StandardProjectOptions_def)

lemma exec_mode:
  "ejected (exec this c) = ejected this \<and> defaultTask (exec this c) = defaultTask this
   \<and> ejectTask (exec this c) = ejectTask this \<and> projenCommand (exec this c) = projenCommand this"
  by (cases c) (simp_all add: addTask_def removeTask_def addPackageIgnore_def addGitIgnore_def
      annotateGenerated_def split: prod.splits)

lemma run_mode:
  "ejected (run this calls) = ejected this \<and> defaultTask (run this calls) = defaultTask this
   \<and> ejectTask (run this calls) = ejectTask this \<and> projenCommand (run this calls) = projenCommand this"
  unfolding run_def
proof (induction calls arbitrary: this)
  case Nil
  show ?case by simp
next
  case (Cons c calls)
  show ?case using Cons.IH [of "exec this c"] exec_mode [of this c] by simp
qed

text \<open>
  C3. The constructor returns a project in either mode, and the project holds a default
  task and an eject task exactly when it is not ejected: in ejected mode both fields are
  undefined, in normal mode both are defined. At construction the two fields are what
  the registry has under the names \<open>default\<close> and \<open>eject\<close>. The mode and the two
  fields are the same after every sequence of calls on the project and its tasks (the
  fields are read-only: \<open>removeTask\<close> can take the entry out of the registry, and the
  field still holds the task).
\<close>

theorem mode_fixed_at_construction:
  "\<exists>this. StandardProject_new e path options = Inr this
     \<and> ejected this = e
     \<and> (defaultTask this \<noteq> None) = (\<not> e)
     \<and> (ejectTask this \<noteq> None) = (\<not> e)
     \<and> Tasks_get (tasks this) DEFAULT_TASK = defaultTask this
     \<and> Tasks_get (tasks this) ''eject'' = ejectTask this
     \<and> (\<forall>calls. ejected (run this calls) = e
            \<and> defaultTask (run this calls) = defaultTask this
            \<and> ejectTask (run this calls) = ejectTask this)"
proof (cases e)
  case True
  then show ?thesis
    by (simp add: StandardProject_new_ejected run_mode Tasks_get_def)
next
  case False
  then show ?thesis
    by (simp add: StandardProject_new_normal run_mode Tasks_get_def DEFAULT_TASK_def)
qed

text \<open>
  C4. In normal mode the constructor returns a project whose fields hold a default task
  \<open>d\<close> and an eject task \<open>j\<close>, registered under the names \<open>default\<close> and \<open>eject\<close>, and
  the spawn list of the eject task is the one-element list of the default task.
\<close>

theorem eject_spawns_default:
  "\<exists>this d j. StandardProject_new False path options = Inr this
     \<and> defaultTask this = Some d \<and> ejectTask this = Some j
     \<and> Tasks_get (tasks this) DEFAULT_TASK = Some d
     \<and> Tasks_get (tasks this) ''eject'' = Some j
     \<and> d < length (heap (tasks this)) \<and> j < length (heap (tasks this))
     \<and> name (heap (tasks this) ! d) = ''default''
     \<and> name (heap (tasks this) ! j) = ''eject''
     \<and> spawns (heap (tasks this) ! j) = [d]
     \<and> map (\<lambda>c. name (heap (tasks this) ! c)) (spawns (heap (tasks this) ! j)) = [''default'']"
proof -
  let ?p = "\<lparr>ejected = False,
          gitignore = [Exclude ''node_modules/'', Include (''/'' @ path)],
          gitattributes = [(''/.projen/**'', ''linguist-generated''),
                           (''/'' @ path, ''linguist-generated'')],
          tasks = \<lparr>entries = [(''default'', 0), (''eject'', 1)],
                   heap = [\<lparr>name = ''default'', description = Some ''Synthesize project files'',
                            environment = [], spawns = []\<rparr>,
                           \<lparr>name = ''eject'', description = Some ''Remove projen from the project'',
                            environment = [(''PROJEN_EJECTING'', ''true'')], spawns = [0]\<rparr>]\<rparr>,
          projenCommand = (case opt_projenCommand options of None \<Rightarrow> ''npx projen'' | Some c \<Rightarrow> c),
          defaultTask = Some 0, ejectTask = Some 1,
          components = built_components options\<rparr>"
  have new: "StandardProject_new False path options = Inr ?p"
    by (rule StandardProject_new_normal)
  have fields: "defaultTask ?p = Some 0 \<and> ejectTask ?p = Some 1"
    by simp
  have registered: "Tasks_get (tasks ?p) DEFAULT_TASK = Some 0 \<and> Tasks_get (tasks ?p) ''eject'' = Some 1"
    by (simp add: Tasks_get_def DEFAULT_TASK_def)
  have stored: "0 < length (heap (tasks ?p)) \<and> 1 < length (heap (tasks ?p))"
    by simp
  have names: "name (heap (tasks ?p) ! 0) = ''default'' \<and> name (heap (tasks ?p) ! 1) = ''eject''"
    by simp
  have wired: "spawns (heap (tasks ?p) ! 1) = [0]"
    by simp
  have wired_names: "map (\<lambda>c. name (heap (tasks ?p) ! c)) (spawns (heap (tasks ?p) ! 1)) = [''default'']"
    by simp
  show ?thesis
  proof (intro exI conjI)
    show "StandardProject_new False path options = Inr ?p" by (rule new)
    show "defaultTask ?p = Some 0" using fields by simp
    show "ejectTask ?p = Some 1" using fields by simp
    show "Tasks_get (tasks ?p) DEFAULT_TASK = Some 0" using registered by simp
    show "Tasks_get (tasks ?p) ''eject'' = Some 1" using registered by simp
    show "0 < length (heap (tasks ?p))" using stored by simp
    show "1 < length (heap (tasks ?p))" using stored by simp
    show "name (heap (tasks ?p) ! 0) = ''default''" using names by simp
    show "name (heap (tasks ?p) ! 1) = ''eject''" using names by simp
    show "spawns (heap (tasks ?p) ! 1) = [0]" by (rule wired)
    show "map (\<lambda>c. name (heap (tasks ?p) ! c)) (spawns (heap (tasks ?p) ! 1)) = [''default'']"
      by (rule wired_names)
  qed
qed

text \<open>
  C1, as the code has it. In ejected mode the constructor returns a project for which it
  has created no task under the name \<open>default\<close>: the field of the default task is
  undefined and the constructor has registered nothing under that name. The field
  \<open>projenCommand\<close> is the local script \<open>scripts/run-task\<close>. \<open>runTaskCommand\<close> does
  not read that field: for every task it returns \<open>npx projen@\<close>, the version, a space
  and the name of the task, in ejected mode as in normal mode.
\<close>

theorem ejected_construction:
  "\<exists>this. StandardProject_new True path options = Inr this
     \<and> Tasks_get (tasks this) ''default'' = None
     \<and> defaultTask this = None
     \<and> projenCommand this = ''scripts/run-task''
     \<and> (\<forall>v task. runTaskCommand v this task = ''npx projen@'' @ v @ '' '' @ name task)"
proof -
  let ?p = "\<lparr>ejected = True,
          gitignore = [Exclude ''node_modules/'', Include (''/'' @ path)],
          gitattributes = [(''/.projen/**'', ''linguist-generated''),
                           (''/'' @ path, ''linguist-generated'')],
          tasks = \<lparr>entries = [], heap = []\<rparr>,
          projenCommand = ''scripts/run-task'',
          defaultTask = None, ejectTask = None,
          components = built_components options\<rparr>"
  have new: "StandardProject_new True path options = Inr ?p"
    by (rule StandardProject_new_ejected)
  have registry: "Tasks_get (tasks ?p) ''default'' = None"
    by (simp add: Tasks_get_def)
  have fields: "defaultTask ?p = None \<and> projenCommand ?p = ''scripts/run-task''"
    by simp
  have command: "\<forall>v task. runTaskCommand v ?p task = ''npx projen@'' @ v @ '' '' @ name task"
    by (simp add: runTaskCommand_def)
  show ?thesis
  proof (intro exI conjI)
    show "StandardProject_new True path options = Inr ?p" by (rule new)
    show "Tasks_get (tasks ?p) ''default'' = None" by (rule registry)
    show "defaultTask ?p = None" using fields by simp
    show "projenCommand ?p = ''scripts/run-task''" using fields by simp
    show "\<forall>v task. runTaskCommand v ?p task = ''npx projen@'' @ v @ '' '' @ name task"
      by (rule command)
  qed
qed

text \<open>
  C1, as stated, fails on an ejected project that has the tasks \<open>build\<close> and \<open>test\<close>
  in its registry, however they were registered: with the version \<open>0.1.0\<close>,
  \<open>runTaskCommand\<close> returns \<open>npx projen@0.1.0 build\<close> for the one and
  \<open>npx projen@0.1.0 test\<close> for the other, two strings in the versioned npx form that
  differ with the name of the task, while \<open>projenCommand\<close> is \<open>scripts/run-task\<close>.
  The method reads the name of the task and nothing of the project, so the two strings
  do not depend on what else the registry holds.
\<close>

theorem runTaskCommand_ejected_counterexample:
  "ejected example_ejected_tasks
   \<and> projenCommand example_ejected_tasks = ''scripts/run-task''
   \<and> Tasks_get (tasks example_ejected_tasks) ''build'' = Some 0
   \<and> Tasks_get (tasks example_ejected_tasks) ''test'' = Some 1
   \<and> name (heap (tasks example_ejected_tasks) ! 0) = ''build''
   \<and> name (heap (tasks example_ejected_tasks) ! 1) = ''test''
   \<and> runTaskCommand ''0.1.0'' example_ejected_tasks (heap (tasks example_ejected_tasks) ! 0)
       = ''npx projen@0.1.0 build''
   \<and> runTaskCommand ''0.1.0'' example_ejected_tasks (heap (tasks example_ejected_tasks) ! 1)
       = ''npx projen@0.1.0 test''
   \<and> runTaskCommand ''0.1.0'' example_ejected_tasks (heap (tasks example_ejected_tasks) ! 0)
       \<noteq> runTaskCommand ''0.1.0'' example_ejected_tasks (heap (tasks example_ejected_tasks) ! 1)"
proof -
  have mode: "ejected example_ejected_tasks
      \<and> projenCommand example_ejected_tasks = ''scripts/run-task''"
    by (simp add: example_ejected_tasks_def)
  have registered: "Tasks_get (tasks example_ejected_tasks) ''build'' = Some 0
      \<and> Tasks_get (tasks example_ejected_tasks) ''test'' = Some 1"
    by (simp add: example_ejected_tasks_def Tasks_get_def)
  have names: "name (heap (tasks example_ejected_tasks) ! 0) = ''build''
      \<and> name (heap (tasks example_ejected_tasks) ! 1) = ''test''"
    by (simp add: example_ejected_tasks_def)
  have build: "runTaskCommand ''0.1.0'' example_ejected_tasks (heap (tasks example_ejected_tasks) ! 0)
      = ''npx projen@0.1.0 build''"
    using names by (simp add: runTaskCommand_def)
  have test: "runTaskCommand ''0.1.0'' example_ejected_tasks (heap (tasks example_ejected_tasks) ! 1)
      = ''npx projen@0.1.0 test''"
    using names by (simp add: runTaskCommand_def)
  from mode registered names build test show ?thesis
    by simp
qed

text \<open>
  C7. \<open>runTaskCommand\<close> returns the fixed prefix \<open>npx projen@\<close>, the version, a space
  and the name of the task. Two calls with the same version and tasks of the same name
  return the same string, whatever the project and the other fields of the task are, and
  the call leaves the project as it was.
\<close>

theorem runTaskCommand_pure:
  "runTaskCommand v this task = ''npx projen@'' @ v @ '' '' @ name task
   \<and> (name task = name task' \<longrightarrow> runTaskCommand v this task = runTaskCommand v this' task')
   \<and> exec this (RunTaskCommand v task) = this"
proof (intro conjI impI)
  show "runTaskCommand v this task = ''npx projen@'' @ v @ '' '' @ name task"
    by (simp add: runTaskCommand_def)
  show "runTaskCommand v this task = runTaskCommand v this' task'" if "name task = name task'"
    using that by (simp add: runTaskCommand_def)
  show "exec this (RunTaskCommand v task) = this"
    by simp
qed

theorem runTaskCommand_pure_witness:
  "name (Task_new ''build'' no_TaskOptions)
     = name (Task_new ''build'' \<lparr>opt_description = Some ''Full release build'', opt_env = None\<rparr>)
   \<and> runTaskCommand ''0.1.0'' example_normal (Task_new ''build'' no_TaskOptions)
     = runTaskCommand ''0.1.0'' example_ejected
         (Task_new ''build'' \<lparr>opt_description = Some ''Full release build'', opt_env = None\<rparr>)
   \<and> runTaskCommand ''0.1.0'' example_normal (Task_new ''build'' no_TaskOptions)
     = ''npx projen@0.1.0 build''"
proof -
  have same: "name (Task_new ''build'' no_TaskOptions)
     = name (Task_new ''build'' \<lparr>opt_description = Some ''Full release build'', opt_env = None\<rparr>)"
    and nm: "name (Task_new ''build'' no_TaskOptions) = ''build''"
    by (simp_all add: Task_new_def)
  from runTaskCommand_pure [of "''0.1.0''" example_normal "Task_new ''build'' no_TaskOptions"
      "Task_new ''build'' \<lparr>opt_description = Some ''Full release build'', opt_env = None\<rparr>"
      example_ejected] same nm
  show ?thesis by auto
qed

text \<open>
  C10. \<open>addPackageIgnore\<close> leaves the project as it was, for every pattern: one call
  does, and so does every sequence of such calls.
\<close>

theorem addPackageIgnore_noop:
  "addPackageIgnore this pattern = this
   \<and> exec this (AddPackageIgnore pattern) = this
   \<and> run this (map AddPackageIgnore patterns) = this"
proof -
  have one: "addPackageIgnore this pattern = this"
    by (simp add: addPackageIgnore_def)
  have many: "foldl exec this (map AddPackageIgnore patterns) = this"
    by (induction patterns) (simp_all add: addPackageIgnore_def)
  from one many show ?thesis by (simp add: run_def)
qed

end
